theory Spec2Isabelle
  imports Complex_Main
begin

section \<open>Data model\<close>

text \<open>
  The client keeps its state in React state cells, in refs and in two global variables
  (the module-level \<open>conn\<close> of \<open>App.tsx\<close> and \<open>window.conn\<close>). Every handler of the
  source is a function from the state before the call to the state after it.
\<close>

subsection \<open>Input snapshot\<close>

text \<open>
  \<open>InputState\<close> as \<open>currentInputRef\<close> initialises it (\<open>App.tsx\<close>, lines 79-83): eight
  boolean flags and the counter \<open>sequence\<close>. The counter starts at \<open>0\<close> and is only ever
  incremented, so it is a natural number.
\<close>

record InputState =
  forward :: bool
  backward :: bool
  left :: bool
  right :: bool
  sprint :: bool
  jump :: bool
  attack :: bool
  castSpell :: bool
  sequence :: nat

subsection \<open>The animation classifier\<close>

text \<open>
  \<open>determineAnimation\<close> (\<open>App.tsx\<close>, lines 178-220). The chain of \<open>if\<close>/\<open>else if\<close> that
  assigns \<open>direction\<close> is kept in the order of the source, with the initial value
  \<open>'forward'\<close> as the result when no branch is taken. The template literal
  \<open>`${moveType}-${direction}`\<close> is string concatenation.
\<close>

definition determineAnimation :: "InputState \<Rightarrow> string" where
  "determineAnimation input =
    (if attack input then ''attack1''
     else if castSpell input then ''cast''
     else if jump input then ''jump''
     else
       let isMoving = (forward input \<or> backward input \<or> left input \<or> right input) in
       if \<not> isMoving then ''idle''
       else
         let direction =
               (if forward input \<and> \<not> backward input then ''forward''
                else if backward input \<and> \<not> forward input then ''back''
                else if left input \<and> \<not> right input then ''left''
                else if right input \<and> \<not> left input then ''right''
                else if forward input \<and> left input then ''left''
                else if forward input \<and> right input then ''right''
                else if backward input \<and> left input then ''left''
                else if backward input \<and> right input then ''right''
                else ''forward'');
             moveType = (if sprint input then ''run'' else ''walk'')
         in moveType @ ''-'' @ direction)"

text \<open>The twelve tags the classifier can produce.\<close>

definition animation_tags :: "string set" where
  "animation_tags =
    {''attack1'', ''cast'', ''jump'', ''idle'',
     ''walk-forward'', ''walk-back'', ''walk-left'', ''walk-right'',
     ''run-forward'', ''run-back'', ''run-left'', ''run-right''}"

text \<open>Snapshots used as concrete inputs below: nothing pressed, and two diagonals.\<close>

definition idle_input :: InputState where
  "idle_input =
    \<lparr>forward = False, backward = False, left = False, right = False,
     sprint = False, jump = False, attack = False, castSpell = False, sequence = 0\<rparr>"

definition forward_left_input :: InputState where
  "forward_left_input = idle_input\<lparr>forward := True, left := True\<rparr>"

definition backward_right_input :: InputState where
  "backward_right_input = idle_input\<lparr>backward := True, right := True\<rparr>"

subsection \<open>Numbers\<close>

text \<open>
  The counter is a JavaScript number, an IEEE double. On the integers \<open>0 .. 2^53\<close>, the
  only values a counter that starts at \<open>0\<close> and is only incremented can take,
  \<open>n + 1\<close> is exact below \<open>2^53\<close> and \<open>2^53 + 1\<close> rounds back to \<open>2^53\<close>.
  \<open>js_add_one\<close> is \<open>sequence += 1\<close> on this range; results about it carry the bound.
\<close>

definition js_add_one :: "nat \<Rightarrow> nat" where
  "js_add_one n = (if n < 2 ^ 53 then n + 1 else n)"

subsection \<open>JavaScript maps\<close>

text \<open>
  A \<open>Map\<close> is a list of entries in insertion order with one entry per key. \<open>set\<close>
  overwrites the value of a key in place or appends a new entry; \<open>delete\<close> removes the
  key's entry and does nothing when there is none. \<open>new Map(prev)\<close> copies, which a value
  model gives for free.
\<close>

type_synonym ('k, 'v) js_map = "('k \<times> 'v) list"

fun Map_set :: "'k \<Rightarrow> 'v \<Rightarrow> ('k, 'v) js_map \<Rightarrow> ('k, 'v) js_map" where
  "Map_set k v [] = [(k, v)]"
| "Map_set k v ((k', v') # m) = (if k' = k then (k, v) # m else (k', v') # Map_set k v m)"

fun Map_delete :: "'k \<Rightarrow> ('k, 'v) js_map \<Rightarrow> ('k, 'v) js_map" where
  "Map_delete k [] = []"
| "Map_delete k ((k', v') # m) = (if k' = k then Map_delete k m else (k', v') # Map_delete k m)"

subsection \<open>Rows, connection and environment\<close>

text \<open>
  An \<open>Identity\<close> of the SDK is compared through \<open>toHexString()\<close> only, so it is
  represented by that string.
\<close>

datatype Identity = Identity (toHexString: string)

text \<open>
  Modelled from the spec: the declaration of \<open>PlayerData\<close> is in the generated bindings
  (\<open>./generated\<close>), which are not among the sources. The handlers read \<open>identity\<close> and
  \<open>username\<close>; the spec's data model adds a character class, a position, a rotation and
  an animation tag, which no modelled handler reads. The record keeps the first three.
\<close>

record PlayerData =
  identity :: Identity
  username :: string
  characterClass :: string

text \<open>The reducers the client invokes, with their arguments.\<close>

datatype reducer_call =
  RegisterPlayer string string
| ToggleGridSquare string

text \<open>
  The connection object of the SDK, as far as the client uses it: the rows
  \<open>conn.db.player.iter()\<close> yields, and, for each reducer invocation, whether the SDK
  throws (\<open>Some message\<close>) or returns (\<open>None\<close>).
\<close>

record DbConnection =
  db_player :: "PlayerData list"
  reducer_throws :: "reducer_call \<Rightarrow> string option"

datatype console_entry =
  ConsoleLog "string list"
| ConsoleError "string list"

datatype dom_element = DocumentBody | OtherElement

record Euler =
  euler_x :: real
  euler_y :: real
  euler_z :: real

record MouseEvent =
  button :: int
  movementX :: real
  movementY :: real

subsection \<open>Client state\<close>

text \<open>
  The state cells of \<open>App\<close> (\<open>useState\<close>, \<open>useRef\<close>), the two connection variables, the
  \<open>selectedSquares\<close> cell of \<open>GroundGrid\<close>, and the environment the handlers act on: the
  element holding the pointer lock, the animation-frame handles the browser has
  pending (\<open>raf_pending\<close>) with the last handle it issued (\<open>raf_counter\<close>), the reducer
  invocations made so far and the console. The state cell \<open>identity\<close> of \<open>App\<close> is the
  field \<open>app_identity\<close>; \<open>lastSentInputState\<close> is \<open>None\<close> for the empty object.
\<close>

record app_state =
  conn :: "DbConnection option"
  window_conn :: "DbConnection option"
  connected :: bool
  app_identity :: "Identity option"
  statusMessage :: string
  players :: "(string, PlayerData) js_map"
  localPlayer :: "PlayerData option"
  showJoinDialog :: bool
  isDebugPanelExpanded :: bool
  isPointerLocked :: bool
  currentInputRef :: InputState
  lastSentInputState :: "InputState option"
  animationFrameIdRef :: "nat option"
  playerRotationRef :: Euler
  selectedSquares :: "string list"
  pointerLockElement :: "dom_element option"
  raf_pending :: "nat list"
  raf_counter :: nat
  reducer_calls :: "reducer_call list"
  console :: "console_entry list"

text \<open>The state in which \<open>App\<close> starts (the initial values of its cells and refs).\<close>

definition initial_state :: app_state where
  "initial_state =
    \<lparr>conn = None, window_conn = None, connected = False, app_identity = None,
     statusMessage = ''Connecting...'', players = [], localPlayer = None,
     showJoinDialog = False, isDebugPanelExpanded = False, isPointerLocked = False,
     currentInputRef = idle_input, lastSentInputState = None,
     animationFrameIdRef = None,
     playerRotationRef = \<lparr>euler_x = 0, euler_y = 0, euler_z = 0\<rparr>,
     selectedSquares = [], pointerLockElement = None,
     raf_pending = [], raf_counter = 0, reducer_calls = [], console = []\<rparr>"

section \<open>Operations\<close>

subsection \<open>Environment primitives\<close>

definition console_log :: "string list \<Rightarrow> app_state \<Rightarrow> app_state" where
  "console_log args s = s\<lparr>console := console s @ [ConsoleLog args]\<rparr>"

definition console_error :: "string list \<Rightarrow> app_state \<Rightarrow> app_state" where
  "console_error args s = s\<lparr>console := console s @ [ConsoleError args]\<rparr>"

text \<open>
  \<open>requestAnimationFrame\<close> issues the next handle (handles are positive) and keeps it
  pending; \<open>cancelAnimationFrame\<close> drops a handle from the pending ones.
\<close>

definition requestAnimationFrame :: "app_state \<Rightarrow> nat \<times> app_state" where
  "requestAnimationFrame s =
    (let h = Suc (raf_counter s)
     in (h, s\<lparr>raf_counter := h, raf_pending := raf_pending s @ [h]\<rparr>))"

definition cancelAnimationFrame :: "nat \<Rightarrow> app_state \<Rightarrow> app_state" where
  "cancelAnimationFrame h s = s\<lparr>raf_pending := removeAll h (raf_pending s)\<rparr>"

text \<open>
  A reducer invocation on a connection: the SDK throws, or the call goes out and is
  appended to the invocations made.
\<close>

definition callReducer :: "DbConnection \<Rightarrow> reducer_call \<Rightarrow> app_state \<Rightarrow> string + app_state" where
  "callReducer c r s =
    (case reducer_throws c r of
       Some message \<Rightarrow> Inl message
     | None \<Rightarrow> Inr (s\<lparr>reducer_calls := reducer_calls s @ [r]\<rparr>))"

subsection \<open>Player table callbacks\<close>

text \<open>
  The three callbacks \<open>registerTableCallbacks\<close> installs (\<open>App.tsx\<close>, lines 91-128).
  Each is a closure over the \<open>identity\<close> of the render that created it, the parameter
  \<open>identity_c\<close>; the test \<open>identity && player.identity.toHexString() ===
  identity.toHexString()\<close> is \<open>is_local\<close>.
\<close>

definition is_local :: "Identity option \<Rightarrow> PlayerData \<Rightarrow> bool" where
  "is_local identity_c player =
    (case identity_c of
       None \<Rightarrow> False
     | Some i \<Rightarrow> toHexString (identity player) = toHexString i)"

definition player_onInsert :: "Identity option \<Rightarrow> PlayerData \<Rightarrow> app_state \<Rightarrow> app_state" where
  "player_onInsert identity_c player s =
    (let s1 = console_log [''Player inserted (callback):'', toHexString (identity player)] s;
         s2 = s1\<lparr>players := Map_set (toHexString (identity player)) player (players s1)\<rparr>
     in if is_local identity_c player
        then s2\<lparr>localPlayer := Some player,
                statusMessage := ''Registered as '' @ username player\<rparr>
        else s2)"

definition player_onUpdate ::
    "Identity option \<Rightarrow> PlayerData \<Rightarrow> PlayerData \<Rightarrow> app_state \<Rightarrow> app_state" where
  "player_onUpdate identity_c oldPlayer newPlayer s =
    (let s1 = s\<lparr>players := Map_set (toHexString (identity newPlayer)) newPlayer (players s)\<rparr>
     in if is_local identity_c newPlayer
        then s1\<lparr>localPlayer := Some newPlayer\<rparr>
        else s1)"

definition player_onDelete :: "Identity option \<Rightarrow> PlayerData \<Rightarrow> app_state \<Rightarrow> app_state" where
  "player_onDelete identity_c player s =
    (let s1 = console_log [''Player deleted (callback):'', toHexString (identity player)] s;
         s2 = s1\<lparr>players := Map_delete (toHexString (identity player)) (players s1)\<rparr>
     in if is_local identity_c player
        then s2\<lparr>localPlayer := None, statusMessage := ''Local player deleted!''\<rparr>
        else s2)"

text \<open>
  The row events the SDK delivers for the \<open>player\<close> table, and their delivery, one after
  the other, to the callbacks.
\<close>

datatype player_event =
  PlayerInsert PlayerData
| PlayerUpdate PlayerData PlayerData
| PlayerDelete PlayerData

fun deliver :: "Identity option \<Rightarrow> player_event \<Rightarrow> app_state \<Rightarrow> app_state" where
  "deliver identity_c (PlayerInsert player) s = player_onInsert identity_c player s"
| "deliver identity_c (PlayerUpdate oldPlayer newPlayer) s =
     player_onUpdate identity_c oldPlayer newPlayer s"
| "deliver identity_c (PlayerDelete player) s = player_onDelete identity_c player s"

fun replay :: "Identity option \<Rightarrow> player_event list \<Rightarrow> app_state \<Rightarrow> app_state" where
  "replay identity_c [] s = s"
| "replay identity_c (e # es) s = replay identity_c es (deliver identity_c e s)"

text \<open>
  The reference the spec compares the mirror with, written from its words: a map keyed
  by the identity's hex string; insert sets the key; update sets the key when present
  and behaves as an insert otherwise; delete removes the key when present and does
  nothing otherwise.
\<close>

type_synonym reference_map = "string \<Rightarrow> PlayerData option"

definition reference_insert :: "PlayerData \<Rightarrow> reference_map \<Rightarrow> reference_map" where
  "reference_insert p m = m(toHexString (identity p) \<mapsto> p)"

definition reference_update :: "PlayerData \<Rightarrow> reference_map \<Rightarrow> reference_map" where
  "reference_update p m =
    (if m (toHexString (identity p)) \<noteq> None
     then m(toHexString (identity p) \<mapsto> p)
     else reference_insert p m)"

definition reference_delete :: "PlayerData \<Rightarrow> reference_map \<Rightarrow> reference_map" where
  "reference_delete p m =
    (if m (toHexString (identity p)) \<noteq> None
     then m(toHexString (identity p) := None)
     else m)"

fun reference_step :: "player_event \<Rightarrow> reference_map \<Rightarrow> reference_map" where
  "reference_step (PlayerInsert p) m = reference_insert p m"
| "reference_step (PlayerUpdate old p) m = reference_update p m"
| "reference_step (PlayerDelete p) m = reference_delete p m"

fun reference_replay :: "player_event list \<Rightarrow> reference_map \<Rightarrow> reference_map" where
  "reference_replay [] m = m"
| "reference_replay (e # es) m = reference_replay es (reference_step e m)"

subsection \<open>Subscription applied\<close>

text \<open>
  \<open>onSubscriptionApplied\<close> (\<open>App.tsx\<close>, lines 130-145). \<open>initial_load\<close> is its
  \<open>for ... of conn.db.player.iter()\<close> loop: \<open>currentPlayers\<close> is the map being filled,
  and \<open>setLocalPlayer\<close> acts on the state.
\<close>

fun initial_load ::
    "Identity option \<Rightarrow> PlayerData list \<Rightarrow> (string, PlayerData) js_map \<Rightarrow> app_state
      \<Rightarrow> (string, PlayerData) js_map \<times> app_state" where
  "initial_load identity_c [] currentPlayers s = (currentPlayers, s)"
| "initial_load identity_c (player # rows) currentPlayers s =
     initial_load identity_c rows
       (Map_set (toHexString (identity player)) player currentPlayers)
       (if is_local identity_c player then s\<lparr>localPlayer := Some player\<rparr> else s)"

definition onSubscriptionApplied :: "Identity option \<Rightarrow> app_state \<Rightarrow> app_state" where
  "onSubscriptionApplied identity_c s =
    (let s1 = console_log [''Subscription applied successfully.''] s in
     if length (players s1) = 0 then
       (case conn s1 of
          Some c \<Rightarrow>
            (let (currentPlayers, s2) = initial_load identity_c (db_player c) [] s1
             in s2\<lparr>players := currentPlayers\<rparr>)
        | None \<Rightarrow> s1)
     else s1)"

text \<open>The entry a row gets in the mirror: its identity's hex string, and the row.\<close>

definition player_entry :: "PlayerData \<Rightarrow> string \<times> PlayerData" where
  "player_entry p = (toHexString (identity p), p)"

subsection \<open>Dispatch and the frame loop\<close>

text \<open>
  \<open>sendInput\<close> (\<open>App.tsx\<close>, lines 222-272) returns at once; the rest of its body is a
  comment.
\<close>

definition sendInput :: "InputState \<Rightarrow> app_state \<Rightarrow> app_state" where
  "sendInput input s = s"

text \<open>
  \<open>gameLoop\<close> (\<open>App.tsx\<close>, lines 369-380). \<open>connected\<close> and \<open>identity\<close> are the values
  of the render whose effect created the closure (\<open>connected_c\<close>, \<open>identity_c\<close>); \<open>conn\<close>
  is the module-level variable, read at the call. A handle is truthy when it is not
  \<open>null\<close> and not \<open>0\<close>.
\<close>

definition gameLoop :: "bool \<Rightarrow> Identity option \<Rightarrow> app_state \<Rightarrow> app_state" where
  "gameLoop connected_c identity_c s =
    (if \<not> connected_c \<or> conn s = None \<or> identity_c = None then
       (case animationFrameIdRef s of
          Some h \<Rightarrow>
            if h \<noteq> 0 then (cancelAnimationFrame h s)\<lparr>animationFrameIdRef := None\<rparr> else s
        | None \<Rightarrow> s)
     else
       let s1 = s\<lparr>currentInputRef :=
                   (currentInputRef s)\<lparr>sequence := js_add_one (sequence (currentInputRef s))\<rparr>\<rparr>;
           s2 = sendInput (currentInputRef s1) s1;
           (h, s3) = requestAnimationFrame s2
       in s3\<lparr>animationFrameIdRef := Some h\<rparr>)"

subsection \<open>Disconnect\<close>

text \<open>
  \<open>onDisconnect\<close> (\<open>App.tsx\<close>, lines 427-437); \<open>reason\<close> is the message of the error, if
  one is given.
\<close>

definition onDisconnect :: "string option \<Rightarrow> app_state \<Rightarrow> app_state" where
  "onDisconnect reason s =
    (let reasonStr = (case reason of Some message \<Rightarrow> message | None \<Rightarrow> ''No reason given'');
         s1 = console_log [''onDisconnect triggered:'', reasonStr] s
     in s1\<lparr>statusMessage := ''Disconnected: '' @ reasonStr,
            conn := None, window_conn := None, app_identity := None,
            connected := False, players := [], localPlayer := None\<rparr>)"

subsection \<open>Actions that need a connection\<close>

text \<open>
  \<open>handleClick\<close> of the grid (\<open>src/unnamed/part_000\<close>, lines 131-144) reads
  \<open>window.conn\<close> and catches what the reducer call throws.
\<close>

definition handleClick :: "string \<Rightarrow> app_state \<Rightarrow> app_state" where
  "handleClick key s =
    (case window_conn s of
       None \<Rightarrow> console_error [''Cannot toggle grid square - not connected to server''] s
     | Some c \<Rightarrow>
         (let s1 = console_log [''Toggling grid square:'', key] s in
          case callReducer c (ToggleGridSquare key) s1 of
            Inr s2 \<Rightarrow> s2
          | Inl error \<Rightarrow> console_error [''Error toggling grid square:'', error] s1))"

text \<open>
  \<open>handleJoinGame\<close> (\<open>App.tsx\<close>, lines 454-462) reads the module-level \<open>conn\<close> and has
  no \<open>try\<close>: what the reducer call throws leaves the handler, with the state reached.
\<close>

definition handleJoinGame ::
    "string \<Rightarrow> string \<Rightarrow> app_state \<Rightarrow> (string \<times> app_state) + app_state" where
  "handleJoinGame username' characterClass' s =
    (case conn s of
       None \<Rightarrow> Inr (console_error [''Cannot join game, not connected.''] s)
     | Some c \<Rightarrow>
         (let s1 = console_log
                     [''Registering as '' @ username' @ '' ('' @ characterClass' @ '')...''] s
          in case callReducer c (RegisterPlayer username' characterClass') s1 of
               Inl error \<Rightarrow> Inl (error, s1)
             | Inr s2 \<Rightarrow> Inr (s2\<lparr>showJoinDialog := False\<rparr>)))"

subsection \<open>Mouse motion\<close>

text \<open>
  \<open>handleMouseMove\<close> (\<open>App.tsx\<close>, lines 316-329). Rotations and movements are real
  numbers here; \<open>Math.max\<close> and \<open>Math.min\<close> return one of their arguments, so the
  clamp does not depend on rounding.
\<close>

definition handleMouseMove :: "MouseEvent \<Rightarrow> app_state \<Rightarrow> app_state" where
  "handleMouseMove event s =
    (if pointerLockElement s = Some DocumentBody then
       let sensitivity = 0.002;
           r1 = (playerRotationRef s)
                  \<lparr>euler_y := euler_y (playerRotationRef s) - movementX event * sensitivity\<rparr>;
           r2 = r1\<lparr>euler_x :=
                     max (- pi / 2.5) (min (pi / 2.5) (euler_x r1 - movementY event * sensitivity))\<rparr>
       in s\<lparr>playerRotationRef := r2\<rparr>
     else s)"

section \<open>Concrete states\<close>

definition alice :: PlayerData where
  "alice = \<lparr>identity = Identity ''a1'', username = ''alice'', characterClass = ''Wizard''\<rparr>"

definition bob :: PlayerData where
  "bob = \<lparr>identity = Identity ''b2'', username = ''bob'', characterClass = ''Paladin''\<rparr>"

definition carol :: PlayerData where
  "carol = \<lparr>identity = Identity ''c3'', username = ''carol'', characterClass = ''Wizard''\<rparr>"

definition live_connection :: DbConnection where
  "live_connection = \<lparr>db_player = [alice, bob], reducer_throws = (\<lambda>r. None)\<rparr>"

text \<open>A connected session of \<open>alice\<close> whose frame loop has its first handle pending.\<close>

definition session_state :: app_state where
  "session_state =
    initial_state
      \<lparr>conn := Some live_connection, window_conn := Some live_connection,
       connected := True, app_identity := Some (identity alice),
       players := [player_entry alice, player_entry bob], localPlayer := Some alice,
       animationFrameIdRef := Some 1, raf_pending := [1], raf_counter := 1\<rparr>"

text \<open>The session after more than a million ticks.\<close>

definition high_sequence_state :: app_state where
  "high_sequence_state = session_state\<lparr>currentInputRef := idle_input\<lparr>sequence := 1000001\<rparr>\<rparr>"

text \<open>The same player after a change of name, and a run of row events.\<close>

definition alice_renamed :: PlayerData where
  "alice_renamed = alice\<lparr>username := ''alice the grey''\<rparr>"

definition example_events :: "player_event list" where
  "example_events =
    [PlayerInsert alice, PlayerInsert bob, PlayerUpdate alice alice_renamed,
     PlayerDelete bob, PlayerDelete bob, PlayerUpdate carol carol]"

text \<open>The session before any row has reached the mirror.\<close>

definition fresh_session_state :: app_state where
  "fresh_session_state = session_state\<lparr>players := [], localPlayer := None\<rparr>"

text \<open>The session with the pointer locked on the body, and a mouse movement.\<close>

definition locked_state :: app_state where
  "locked_state = session_state\<lparr>pointerLockElement := Some DocumentBody\<rparr>"

definition mouse_sweep :: MouseEvent where
  "mouse_sweep = \<lparr>button = 0, movementX = 100, movementY = - 5000\<rparr>"

section \<open>The animation classifier: results\<close>

lemma determineAnimation_attack:
  "attack i \<Longrightarrow> determineAnimation i = ''attack1''"
  by (simp add: determineAnimation_def)

lemma determineAnimation_cast:
  "\<not> attack i \<Longrightarrow> castSpell i \<Longrightarrow> determineAnimation i = ''cast''"
  by (simp add: determineAnimation_def)

lemma determineAnimation_jump:
  "\<not> attack i \<Longrightarrow> \<not> castSpell i \<Longrightarrow> jump i \<Longrightarrow> determineAnimation i = ''jump''"
  by (simp add: determineAnimation_def)

lemma determineAnimation_idle:
  "\<not> attack i \<Longrightarrow> \<not> castSpell i \<Longrightarrow> \<not> jump i \<Longrightarrow>
   \<not> forward i \<Longrightarrow> \<not> backward i \<Longrightarrow> \<not> left i \<Longrightarrow> \<not> right i \<Longrightarrow>
   determineAnimation i = ''idle''"
  by (simp add: determineAnimation_def)

lemma determineAnimation_moving:
  assumes "\<not> attack i" "\<not> castSpell i" "\<not> jump i"
    and "forward i \<or> backward i \<or> left i \<or> right i"
  shows "determineAnimation i \<in>
      (if sprint i then {''run-forward'', ''run-back'', ''run-left'', ''run-right''}
       else {''walk-forward'', ''walk-back'', ''walk-left'', ''walk-right''})"
  using assms by (auto simp add: determineAnimation_def Let_def)

lemma determineAnimation_in_tags: "determineAnimation i \<in> animation_tags"
proof (cases "attack i \<or> castSpell i \<or> jump i")
  case True
  then show ?thesis
    by (auto simp add: determineAnimation_def animation_tags_def)
next
  case quiet: False
  show ?thesis
  proof (cases "forward i \<or> backward i \<or> left i \<or> right i")
    case True
    with quiet determineAnimation_moving [of i] show ?thesis
      by (auto simp add: animation_tags_def split: if_splits)
  next
    case False
    with quiet show ?thesis
      by (simp add: determineAnimation_idle animation_tags_def)
  qed
qed

text \<open>
  When exactly one of \<open>forward\<close> and \<open>backward\<close> is held, that flag gives the direction,
  whatever \<open>left\<close> and \<open>right\<close> are; the branches for \<open>forward && left\<close> and the like
  are reached only with \<open>forward\<close> and \<open>backward\<close> both held.
\<close>

lemma determineAnimation_longitudinal_first:
  assumes "\<not> attack i" "\<not> castSpell i" "\<not> jump i" and "forward i \<noteq> backward i"
  shows "determineAnimation i =
    (if sprint i then ''run'' else ''walk'') @ ''-'' @ (if forward i then ''forward'' else ''back'')"
  using assms by (auto simp add: determineAnimation_def)

text \<open>
  C1. The claim says that forward+left is classified \<open>walk-left\<close> and backward+right
  \<open>walk-right\<close>. The source tests \<open>forward && !backward\<close> and \<open>backward && !forward\<close>
  before any branch that looks at \<open>left\<close> or \<open>right\<close>, so on these two snapshots the
  classifier answers \<open>walk-forward\<close> and \<open>walk-back\<close>: the branches commented
  "Handle diagonal movement by choosing dominant direction" are not reached.
\<close>

theorem determineAnimation_diagonal_values:
  "determineAnimation forward_left_input = ''walk-forward'' \<and>
   determineAnimation backward_right_input = ''walk-back''"
  by (simp add: determineAnimation_def forward_left_input_def backward_right_input_def
      idle_input_def)

text \<open>
  C2. The classifier is a function of the snapshot with a value for every snapshot, the
  value is one of the twelve tags, and the priority is attack, then castSpell, then
  jump, then movement, then idle: an attack snapshot is \<open>attack1\<close> whatever else is set;
  without attack, castSpell gives \<open>cast\<close>; without both, jump gives \<open>jump\<close>; without the
  three, a snapshot with no movement flag is \<open>idle\<close> and one with a movement flag is a
  \<open>run-\<close> or \<open>walk-\<close> tag chosen by sprint.
\<close>

theorem determineAnimation_priority:
  "determineAnimation i \<in> animation_tags \<and>
   (attack i \<longrightarrow> determineAnimation i = ''attack1'') \<and>
   (\<not> attack i \<and> castSpell i \<longrightarrow> determineAnimation i = ''cast'') \<and>
   (\<not> attack i \<and> \<not> castSpell i \<and> jump i \<longrightarrow> determineAnimation i = ''jump'') \<and>
   (\<not> attack i \<and> \<not> castSpell i \<and> \<not> jump i \<and>
      \<not> (forward i \<or> backward i \<or> left i \<or> right i) \<longrightarrow>
      determineAnimation i = ''idle'') \<and>
   (\<not> attack i \<and> \<not> castSpell i \<and> \<not> jump i \<and>
      (forward i \<or> backward i \<or> left i \<or> right i) \<longrightarrow>
      determineAnimation i \<in>
        (if sprint i then {''run-forward'', ''run-back'', ''run-left'', ''run-right''}
         else {''walk-forward'', ''walk-back'', ''walk-left'', ''walk-right''}))"
proof -
  have moving: "\<not> attack i \<and> \<not> castSpell i \<and> \<not> jump i \<and>
      (forward i \<or> backward i \<or> left i \<or> right i) \<longrightarrow>
      determineAnimation i \<in>
        (if sprint i then {''run-forward'', ''run-back'', ''run-left'', ''run-right''}
         else {''walk-forward'', ''walk-back'', ''walk-left'', ''walk-right''})"
    using determineAnimation_moving [of i] by blast
  have idle: "\<not> attack i \<and> \<not> castSpell i \<and> \<not> jump i \<and>
      \<not> (forward i \<or> backward i \<or> left i \<or> right i) \<longrightarrow>
      determineAnimation i = ''idle''"
    by (simp add: determineAnimation_idle)
  from determineAnimation_in_tags [of i] determineAnimation_attack [of i]
    determineAnimation_cast [of i] determineAnimation_jump [of i] idle moving
  show ?thesis by blast
qed

theorem determineAnimation_priority_witness:
  "determineAnimation (forward_left_input\<lparr>attack := True, castSpell := True, jump := True\<rparr>)
     = ''attack1'' \<and>
   determineAnimation (forward_left_input\<lparr>castSpell := True, jump := True\<rparr>) = ''cast'' \<and>
   determineAnimation (forward_left_input\<lparr>jump := True\<rparr>) = ''jump'' \<and>
   determineAnimation idle_input = ''idle'' \<and>
   determineAnimation (backward_right_input\<lparr>sprint := True\<rparr>)
     \<in> {''run-forward'', ''run-back'', ''run-left'', ''run-right''}"
proof -
  have a: "determineAnimation (forward_left_input\<lparr>attack := True, castSpell := True, jump := True\<rparr>)
      = ''attack1''"
    using determineAnimation_priority
      [of "forward_left_input\<lparr>attack := True, castSpell := True, jump := True\<rparr>"]
    by simp
  have c: "determineAnimation (forward_left_input\<lparr>castSpell := True, jump := True\<rparr>) = ''cast''"
    using determineAnimation_priority [of "forward_left_input\<lparr>castSpell := True, jump := True\<rparr>"]
    by (simp add: forward_left_input_def idle_input_def)
  have j: "determineAnimation (forward_left_input\<lparr>jump := True\<rparr>) = ''jump''"
    using determineAnimation_priority [of "forward_left_input\<lparr>jump := True\<rparr>"]
    by (simp add: forward_left_input_def idle_input_def)
  have n: "determineAnimation idle_input = ''idle''"
    using determineAnimation_priority [of idle_input]
    by (simp add: idle_input_def)
  have m: "determineAnimation (backward_right_input\<lparr>sprint := True\<rparr>)
      \<in> {''run-forward'', ''run-back'', ''run-left'', ''run-right''}"
    using determineAnimation_priority [of "backward_right_input\<lparr>sprint := True\<rparr>"]
    by (simp add: backward_right_input_def idle_input_def)
  from a c j n m show ?thesis by blast
qed

text \<open>
  C10. The classifier reads the eight flags only: two snapshots that agree on all eight
  get the same tag, whatever their \<open>sequence\<close> counters are.
\<close>

theorem determineAnimation_flags_only:
  assumes "forward a = forward b" and "backward a = backward b"
    and "left a = left b" and "right a = right b"
    and "sprint a = sprint b" and "jump a = jump b"
    and "attack a = attack b" and "castSpell a = castSpell b"
  shows "determineAnimation a = determineAnimation b"
  unfolding determineAnimation_def using assms by simp

theorem determineAnimation_flags_only_witness:
  "sequence (forward_left_input\<lparr>sequence := 41\<rparr>) \<noteq> sequence (forward_left_input\<lparr>sequence := 7\<rparr>) \<and>
   determineAnimation (forward_left_input\<lparr>sequence := 41\<rparr>)
     = determineAnimation (forward_left_input\<lparr>sequence := 7\<rparr>)"
  using determineAnimation_flags_only
    [of "forward_left_input\<lparr>sequence := 41\<rparr>" "forward_left_input\<lparr>sequence := 7\<rparr>"]
  by simp

section \<open>Dispatch and the frame loop: results\<close>

lemma sendInput_id: "sendInput input s = s"
  by (simp add: sendInput_def)

lemma gameLoop_active:
  assumes "conn s \<noteq> None"
  shows "gameLoop True (Some i) s =
     s\<lparr>currentInputRef := (currentInputRef s)\<lparr>sequence := js_add_one (sequence (currentInputRef s))\<rparr>,
       raf_counter := Suc (raf_counter s),
       raf_pending := raf_pending s @ [Suc (raf_counter s)],
       animationFrameIdRef := Some (Suc (raf_counter s))\<rparr>"
  using assms by (auto simp add: gameLoop_def sendInput_def requestAnimationFrame_def Let_def)

lemma gameLoop_active_conn:
  "conn s \<noteq> None \<Longrightarrow> conn (gameLoop True (Some i) s) = conn s"
  by (simp add: gameLoop_active)

lemma gameLoop_active_sequence:
  "conn s \<noteq> None \<Longrightarrow>
   sequence (currentInputRef (gameLoop True (Some i) s)) = js_add_one (sequence (currentInputRef s))"
  by (simp add: gameLoop_active)

lemma gameLoop_ticks_conn:
  "conn s \<noteq> None \<Longrightarrow> conn ((gameLoop True (Some i) ^^ n) s) = conn s"
  by (induction n) (simp_all add: gameLoop_active_conn)

lemma gameLoop_ticks_sequence:
  "conn s \<noteq> None \<Longrightarrow> sequence (currentInputRef s) + n \<le> 2 ^ 53 \<Longrightarrow>
   sequence (currentInputRef ((gameLoop True (Some i) ^^ n) s)) = sequence (currentInputRef s) + n"
proof (induction n)
  case 0
  then show ?case by simp
next
  case (Suc n)
  let ?t = "(gameLoop True (Some i) ^^ n) s"
  from Suc have seq: "sequence (currentInputRef ?t) = sequence (currentInputRef s) + n"
    by simp
  from Suc.prems have live: "conn ?t \<noteq> None"
    by (simp add: gameLoop_ticks_conn)
  from seq Suc.prems have "js_add_one (sequence (currentInputRef ?t)) = sequence (currentInputRef s) + Suc n"
    by (simp add: js_add_one_def)
  with live show ?case
    by (simp add: gameLoop_active_sequence)
qed

lemma gameLoop_inactive:
  assumes "\<not> connected_c \<or> conn s = None \<or> identity_c = None"
  shows "gameLoop connected_c identity_c s =
     (case animationFrameIdRef s of
        Some h \<Rightarrow> if h \<noteq> 0 then s\<lparr>raf_pending := removeAll h (raf_pending s), animationFrameIdRef := None\<rparr> else s
      | None \<Rightarrow> s)"
  using assms by (auto simp add: gameLoop_def cancelAnimationFrame_def split: option.splits)

text \<open>
  C4. \<open>sendInput\<close> does nothing: for every snapshot and every state it returns the
  state it was given, so it makes no reducer invocation and changes neither the current
  snapshot, nor the last-sent snapshot, nor the player mirror.
\<close>

theorem sendInput_noop:
  "sendInput input s = s \<and>
   reducer_calls (sendInput input s) = reducer_calls s \<and>
   currentInputRef (sendInput input s) = currentInputRef s \<and>
   lastSentInputState (sendInput input s) = lastSentInputState s \<and>
   players (sendInput input s) = players s"
  by (simp add: sendInput_def)

text \<open>
  C3, as stated, fails: with the counter at 1000001, above the threshold, a tick of the
  connected loop (which dispatches through \<open>sendInput\<close>) leaves it at 1000002 and the
  next one at 1000003. The reset to 1 stands in the commented-out body of \<open>sendInput\<close>
  only.
\<close>

theorem sequence_reset_counterexample:
  "1000000 < sequence (currentInputRef high_sequence_state) \<and>
   sequence (currentInputRef (gameLoop True (Some (identity alice)) high_sequence_state)) = 1000002 \<and>
   sequence (currentInputRef (gameLoop True (Some (identity alice)) high_sequence_state)) \<noteq> 1 \<and>
   sequence (currentInputRef
      (gameLoop True (Some (identity alice))
         (gameLoop True (Some (identity alice)) high_sequence_state))) = 1000003"
  by (simp add: gameLoop_active high_sequence_state_def session_state_def initial_state_def
      js_add_one_def idle_input_def)

text \<open>
  C3, amended. While the session is connected (the loop's closure holds
  \<open>connected = true\<close> and an identity, and \<open>conn\<close> is set), a tick adds exactly 1 to a
  counter below \<open>2^53\<close>, so the counter strictly increases, and \<open>n\<close> consecutive
  ticks add \<open>n\<close> as long as the counter stays within \<open>2^53\<close>, also across 1000000;
  the dispatch leaves the counter as it is, so nothing resets it.
\<close>

theorem gameLoop_sequence_increments:
  assumes "conn s \<noteq> None"
  shows "(sequence (currentInputRef s) < 2 ^ 53 \<longrightarrow>
            sequence (currentInputRef (gameLoop True (Some i) s)) = sequence (currentInputRef s) + 1 \<and>
            sequence (currentInputRef s) < sequence (currentInputRef (gameLoop True (Some i) s))) \<and>
         (sequence (currentInputRef s) + n \<le> 2 ^ 53 \<longrightarrow>
            sequence (currentInputRef ((gameLoop True (Some i) ^^ n) s)) = sequence (currentInputRef s) + n) \<and>
         sequence (currentInputRef (sendInput input s)) = sequence (currentInputRef s)"
  using assms gameLoop_ticks_sequence [of s n i]
  by (simp add: gameLoop_active_sequence js_add_one_def sendInput_def)

theorem gameLoop_sequence_increments_witness:
  "sequence (currentInputRef (gameLoop True (Some (identity alice)) high_sequence_state)) = 1000002 \<and>
   sequence (currentInputRef ((gameLoop True (Some (identity alice)) ^^ 5) high_sequence_state)) = 1000006"
proof -
  have live: "conn high_sequence_state \<noteq> None"
    by (simp add: high_sequence_state_def session_state_def)
  have seq: "sequence (currentInputRef high_sequence_state) = 1000001"
    by (simp add: high_sequence_state_def idle_input_def)
  from gameLoop_sequence_increments [OF live, where n = 5 and i = "identity alice"] seq
  show ?thesis by simp
qed

section \<open>Disconnect: results\<close>

lemma onDisconnect_fields:
  "players (onDisconnect reason s) = []"
  "localPlayer (onDisconnect reason s) = None"
  "connected (onDisconnect reason s) = False"
  "conn (onDisconnect reason s) = None"
  "window_conn (onDisconnect reason s) = None"
  "app_identity (onDisconnect reason s) = None"
  by (simp_all add: onDisconnect_def console_log_def Let_def)

lemma onDisconnect_frame_fields:
  "animationFrameIdRef (onDisconnect reason s) = animationFrameIdRef s"
  "raf_pending (onDisconnect reason s) = raf_pending s"
  "raf_counter (onDisconnect reason s) = raf_counter s"
  "currentInputRef (onDisconnect reason s) = currentInputRef s"
  by (simp_all add: onDisconnect_def console_log_def Let_def)

lemma gameLoop_inactive_halts:
  assumes "\<not> connected_c \<or> conn s = None \<or> identity_c = None"
  shows "animationFrameIdRef (gameLoop connected_c identity_c s) \<in> {None, Some 0}"
    and "animationFrameIdRef s = Some h \<Longrightarrow> h \<noteq> 0 \<Longrightarrow>
           h \<notin> set (raf_pending (gameLoop connected_c identity_c s))"
    and "set (raf_pending (gameLoop connected_c identity_c s)) \<subseteq> set (raf_pending s)"
    and "raf_counter (gameLoop connected_c identity_c s) = raf_counter s"
    and "currentInputRef (gameLoop connected_c identity_c s) = currentInputRef s"
  using assms by (auto simp add: gameLoop_inactive split: option.splits)

text \<open>
  C8. After \<open>onDisconnect\<close> the player mirror is empty, there is no local player, the
  connected flag is false and \<open>conn\<close> is null. An invocation of \<open>gameLoop\<close> on an
  inactive connection (its closure holds \<open>connected = false\<close> or no identity, or \<open>conn\<close>
  is null) leaves no handle in \<open>animationFrameIdRef\<close>, has cancelled the handle that was
  there, requests no new frame (no handle is issued, none is added to the pending ones)
  and leaves the snapshot alone. After \<open>onDisconnect\<close> this holds for every closure of the
  loop, since \<open>conn\<close> is null.
\<close>

theorem disconnect_clears_and_loop_halts:
  "players (onDisconnect reason s) = [] \<and>
   localPlayer (onDisconnect reason s) = None \<and>
   \<not> connected (onDisconnect reason s) \<and>
   conn (onDisconnect reason s) = None \<and>
   (\<not> connected_c \<or> conn t = None \<or> identity_c = None \<longrightarrow>
      animationFrameIdRef (gameLoop connected_c identity_c t) \<in> {None, Some 0} \<and>
      (\<forall>h. animationFrameIdRef t = Some h \<and> h \<noteq> 0 \<longrightarrow>
             h \<notin> set (raf_pending (gameLoop connected_c identity_c t))) \<and>
      set (raf_pending (gameLoop connected_c identity_c t)) \<subseteq> set (raf_pending t) \<and>
      raf_counter (gameLoop connected_c identity_c t) = raf_counter t \<and>
      currentInputRef (gameLoop connected_c identity_c t) = currentInputRef t) \<and>
   animationFrameIdRef (gameLoop connected_c identity_c (onDisconnect reason s)) \<in> {None, Some 0} \<and>
   set (raf_pending (gameLoop connected_c identity_c (onDisconnect reason s))) \<subseteq> set (raf_pending s) \<and>
   raf_counter (gameLoop connected_c identity_c (onDisconnect reason s)) = raf_counter s \<and>
   currentInputRef (gameLoop connected_c identity_c (onDisconnect reason s)) = currentInputRef s"
proof -
  let ?d = "onDisconnect reason s"
  have off: "\<not> connected_c \<or> conn ?d = None \<or> identity_c = None"
    by (simp add: onDisconnect_fields)
  have general: "\<not> connected_c \<or> conn t = None \<or> identity_c = None \<longrightarrow>
      animationFrameIdRef (gameLoop connected_c identity_c t) \<in> {None, Some 0} \<and>
      (\<forall>h. animationFrameIdRef t = Some h \<and> h \<noteq> 0 \<longrightarrow>
             h \<notin> set (raf_pending (gameLoop connected_c identity_c t))) \<and>
      set (raf_pending (gameLoop connected_c identity_c t)) \<subseteq> set (raf_pending t) \<and>
      raf_counter (gameLoop connected_c identity_c t) = raf_counter t \<and>
      currentInputRef (gameLoop connected_c identity_c t) = currentInputRef t"
  proof
    assume off': "\<not> connected_c \<or> conn t = None \<or> identity_c = None"
    from gameLoop_inactive_halts [OF off'] show
      "animationFrameIdRef (gameLoop connected_c identity_c t) \<in> {None, Some 0} \<and>
      (\<forall>h. animationFrameIdRef t = Some h \<and> h \<noteq> 0 \<longrightarrow>
             h \<notin> set (raf_pending (gameLoop connected_c identity_c t))) \<and>
      set (raf_pending (gameLoop connected_c identity_c t)) \<subseteq> set (raf_pending t) \<and>
      raf_counter (gameLoop connected_c identity_c t) = raf_counter t \<and>
      currentInputRef (gameLoop connected_c identity_c t) = currentInputRef t"
      by simp
  qed
  have after: "animationFrameIdRef (gameLoop connected_c identity_c ?d) \<in> {None, Some 0}"
    "set (raf_pending (gameLoop connected_c identity_c ?d)) \<subseteq> set (raf_pending s)"
    "raf_counter (gameLoop connected_c identity_c ?d) = raf_counter s"
    "currentInputRef (gameLoop connected_c identity_c ?d) = currentInputRef s"
    using gameLoop_inactive_halts [OF off] by (simp_all add: onDisconnect_frame_fields)
  from general after show ?thesis
    by (simp add: onDisconnect_fields)
qed

theorem disconnect_clears_and_loop_halts_witness:
  "players session_state \<noteq> [] \<and> raf_pending session_state = [1] \<and>
   players (onDisconnect None session_state) = [] \<and>
   localPlayer (onDisconnect None session_state) = None \<and>
   \<not> connected (onDisconnect None session_state) \<and>
   animationFrameIdRef (gameLoop True (Some (identity alice)) (onDisconnect None session_state)) = None \<and>
   raf_pending (gameLoop True (Some (identity alice)) (onDisconnect None session_state)) = [] \<and>
   raf_counter (gameLoop True (Some (identity alice)) (onDisconnect None session_state)) = 1"
proof -
  let ?d = "onDisconnect None session_state"
  have off: "\<not> True \<or> conn ?d = None \<or> Some (identity alice) = None"
    by (simp add: onDisconnect_fields)
  have ref: "animationFrameIdRef ?d = Some 1 \<and> (1::nat) \<noteq> 0"
    by (simp add: onDisconnect_frame_fields session_state_def)
  have pend: "raf_pending ?d = [1]" "raf_pending session_state = [1]"
    "players session_state \<noteq> []" "raf_counter session_state = 1"
    by (simp_all add: onDisconnect_frame_fields session_state_def)
  have nz: "animationFrameIdRef (gameLoop True (Some (identity alice)) ?d) \<noteq> Some 0"
    using off ref by (simp add: gameLoop_inactive)
  note main = disconnect_clears_and_loop_halts
    [where reason = None and s = session_state and t = ?d and connected_c = True
      and identity_c = "Some (identity alice)"]
  have none_pending: "raf_pending (gameLoop True (Some (identity alice)) ?d) = []"
    using off ref pend by (simp add: gameLoop_inactive)
  from main off ref pend nz none_pending show ?thesis by auto
qed

section \<open>The player mirror: results\<close>

lemma map_of_Map_set: "map_of (Map_set k v m) = (map_of m)(k \<mapsto> v)"
  by (induction m) (auto simp add: fun_eq_iff)

lemma map_of_Map_delete: "map_of (Map_delete k m) = (map_of m)(k := None)"
  by (induction m) (auto simp add: fun_eq_iff)

lemma keys_Map_set:
  "map fst (Map_set k v m) = (if k \<in> set (map fst m) then map fst m else map fst m @ [k])"
  by (induction m) force+

lemma keys_Map_delete: "map fst (Map_delete k m) = removeAll k (map fst m)"
  by (induction m) auto

lemma distinct_Map_set:
  "distinct (map fst m) \<Longrightarrow> distinct (map fst (Map_set k v m))"
  by (simp add: keys_Map_set)

lemma distinct_Map_delete:
  "distinct (map fst m) \<Longrightarrow> distinct (map fst (Map_delete k m))"
  by (simp add: keys_Map_delete distinct_removeAll)

lemma Map_set_fresh:
  "k \<notin> set (map fst m) \<Longrightarrow> Map_set k v m = m @ [(k, v)]"
  by (induction m) auto

lemma players_onInsert:
  "players (player_onInsert identity_c p s) = Map_set (toHexString (identity p)) p (players s)"
  by (simp add: player_onInsert_def console_log_def Let_def)

lemma players_onUpdate:
  "players (player_onUpdate identity_c old p s) = Map_set (toHexString (identity p)) p (players s)"
  by (simp add: player_onUpdate_def Let_def)

lemma players_onDelete:
  "players (player_onDelete identity_c p s) = Map_delete (toHexString (identity p)) (players s)"
  by (simp add: player_onDelete_def console_log_def Let_def)

lemmas players_callbacks = players_onInsert players_onUpdate players_onDelete

lemma deliver_refines_reference_step:
  "map_of (players (deliver identity_c e s)) = reference_step e (map_of (players s))"
  by (cases e)
    (simp_all add: players_callbacks map_of_Map_set map_of_Map_delete
      reference_insert_def reference_update_def reference_delete_def fun_upd_idem)

lemma deliver_keeps_distinct:
  "distinct (map fst (players s)) \<Longrightarrow> distinct (map fst (players (deliver identity_c e s)))"
  by (cases e) (simp_all add: players_callbacks distinct_Map_set distinct_Map_delete)

lemma replay_refines_reference:
  "map_of (players (replay identity_c es s)) = reference_replay es (map_of (players s))"
  by (induction es arbitrary: s) (simp_all add: deliver_refines_reference_step)

lemma replay_keeps_distinct:
  "distinct (map fst (players s)) \<Longrightarrow> distinct (map fst (players (replay identity_c es s)))"
  by (induction es arbitrary: s) (simp_all add: deliver_keeps_distinct)

text \<open>
  C5. For every finite sequence of insert, update and delete events delivered to the
  player callbacks, from any state and for any closure identity, the mirror read as a
  finite map is the reference map obtained by replaying the same events, in the same
  order, from the mirror's contents at the start: insert and update set the key
  (the identity's hex string) to the new row, an update of an absent key acting as an
  insert, and delete removes the key, an absent key being left alone. The mirror keeps
  one entry per key, so reading it as a map loses nothing.
\<close>

theorem mirror_replay_equivalence:
  "map_of (players (replay identity_c events s)) = reference_replay events (map_of (players s)) \<and>
   (distinct (map fst (players s)) \<longrightarrow>
      distinct (map fst (players (replay identity_c events s))))"
  by (simp add: replay_refines_reference replay_keeps_distinct)

lemma example_replay:
  "players (replay (Some (identity alice)) example_events initial_state)
     = [(''a1'', alice_renamed), (''c3'', carol)]"
  by (simp add: example_events_def players_callbacks initial_state_def alice_def bob_def
      carol_def alice_renamed_def)

theorem mirror_replay_equivalence_witness:
  "players (replay (Some (identity alice)) example_events initial_state)
     = [(''a1'', alice_renamed), (''c3'', carol)] \<and>
   reference_replay example_events Map.empty
     = map_of [(''a1'', alice_renamed), (''c3'', carol)] \<and>
   distinct (map fst (players (replay (Some (identity alice)) example_events initial_state)))"
proof -
  have start: "players initial_state = []"
    by (simp add: initial_state_def)
  from mirror_replay_equivalence
    [where identity_c = "Some (identity alice)" and events = example_events and s = initial_state]
  have "map_of [(''a1'', alice_renamed), (''c3'', carol)] = reference_replay example_events Map.empty"
    and "distinct (map fst (players (replay (Some (identity alice)) example_events initial_state)))"
    by (simp_all add: example_replay start)
  then show ?thesis
    by (simp add: example_replay)
qed

section \<open>Subscription applied: results\<close>

lemma initial_load_map_of:
  "map_of (fst (initial_load identity_c rows currentPlayers s))
     = map_of currentPlayers ++ map_of (rev (map player_entry rows))"
  by (induction rows arbitrary: currentPlayers s)
    (simp_all add: map_of_Map_set player_entry_def map_add_upd_left)

lemma key_set_Map_set: "fst ` set (Map_set k v m) = insert k (fst ` set m)"
proof -
  have "set (map fst (Map_set k v m)) = insert k (set (map fst m))"
    unfolding keys_Map_set by auto
  then show ?thesis by simp
qed

lemma initial_load_keys:
  "fst ` set (fst (initial_load identity_c rows currentPlayers s))
     = fst ` set currentPlayers \<union> (\<lambda>p. toHexString (identity p)) ` set rows"
  by (induction rows arbitrary: currentPlayers s) (simp_all add: key_set_Map_set)

lemma initial_load_distinct:
  "distinct (map fst currentPlayers) \<Longrightarrow>
   distinct (map fst (fst (initial_load identity_c rows currentPlayers s)))"
  by (induction rows arbitrary: currentPlayers s) (simp_all add: distinct_Map_set)

lemma initial_load_distinct_rows:
  "distinct (map (\<lambda>p. toHexString (identity p)) rows) \<Longrightarrow>
   set (map fst currentPlayers) \<inter> set (map (\<lambda>p. toHexString (identity p)) rows) = {} \<Longrightarrow>
   fst (initial_load identity_c rows currentPlayers s) = currentPlayers @ map player_entry rows"
proof (induction rows arbitrary: currentPlayers s)
  case Nil
  then show ?case by simp
next
  case (Cons p rows)
  from Cons.prems have fresh: "toHexString (identity p) \<notin> set (map fst currentPlayers)"
    by auto
  from Cons.prems fresh
  have "set (map fst (currentPlayers @ [player_entry p]))
          \<inter> set (map (\<lambda>p. toHexString (identity p)) rows) = {}"
    by (auto simp add: player_entry_def)
  with Cons.IH [of "currentPlayers @ [player_entry p]"] Cons.prems fresh
  show ?case
    by (simp add: Map_set_fresh player_entry_def)
qed

lemma players_onSubscriptionApplied:
  "players (onSubscriptionApplied identity_c s) =
     (if players s = [] then
        (case conn s of
           Some c \<Rightarrow>
             fst (initial_load identity_c (db_player c) []
                    (console_log [''Subscription applied successfully.''] s))
         | None \<Rightarrow> players s)
      else players s)"
  by (simp add: onSubscriptionApplied_def console_log_def Let_def split_beta
      split: option.splits)

text \<open>
  C6. When \<open>onSubscriptionApplied\<close> runs on a non-empty mirror, the mirror is left as it
  is. When it runs on an empty mirror with a connection, the mirror is loaded from the
  rows the connection has cached: its keys are the hex strings of the rows' identities,
  one entry each, a later row of the same identity replacing an earlier one, and when
  the rows' identities are distinct the mirror is exactly the rows, in order, each under
  its key. (Without a connection there are no rows to iterate and the mirror is left as
  it is.)
\<close>

theorem onSubscriptionApplied_fill_policy:
  "(players s \<noteq> [] \<longrightarrow> players (onSubscriptionApplied identity_c s) = players s) \<and>
   (conn s = None \<longrightarrow> players (onSubscriptionApplied identity_c s) = players s) \<and>
   (players s = [] \<and> conn s = Some c \<longrightarrow>
      map_of (players (onSubscriptionApplied identity_c s))
        = map_of (rev (map player_entry (db_player c))) \<and>
      set (map fst (players (onSubscriptionApplied identity_c s)))
        = set (map (\<lambda>p. toHexString (identity p)) (db_player c)) \<and>
      distinct (map fst (players (onSubscriptionApplied identity_c s))) \<and>
      (distinct (map (\<lambda>p. toHexString (identity p)) (db_player c)) \<longrightarrow>
         players (onSubscriptionApplied identity_c s) = map player_entry (db_player c)))"
proof -
  have kept: "players s \<noteq> [] \<longrightarrow> players (onSubscriptionApplied identity_c s) = players s"
    by (simp add: players_onSubscriptionApplied)
  have offline: "conn s = None \<longrightarrow> players (onSubscriptionApplied identity_c s) = players s"
    by (simp add: players_onSubscriptionApplied)
  have loaded: "players s = [] \<and> conn s = Some c \<longrightarrow>
      map_of (players (onSubscriptionApplied identity_c s))
        = map_of (rev (map player_entry (db_player c))) \<and>
      set (map fst (players (onSubscriptionApplied identity_c s)))
        = set (map (\<lambda>p. toHexString (identity p)) (db_player c)) \<and>
      distinct (map fst (players (onSubscriptionApplied identity_c s))) \<and>
      (distinct (map (\<lambda>p. toHexString (identity p)) (db_player c)) \<longrightarrow>
         players (onSubscriptionApplied identity_c s) = map player_entry (db_player c))"
    by (simp add: players_onSubscriptionApplied initial_load_map_of initial_load_keys
        initial_load_distinct initial_load_distinct_rows)
  from kept offline loaded show ?thesis by blast
qed

theorem onSubscriptionApplied_fill_policy_witness:
  "players (onSubscriptionApplied (Some (identity alice)) fresh_session_state)
     = [(''a1'', alice), (''b2'', bob)] \<and>
   players (onSubscriptionApplied (Some (identity alice))
      (fresh_session_state\<lparr>players := [(''c3'', carol)]\<rparr>)) = [(''c3'', carol)] \<and>
   players (onSubscriptionApplied (Some (identity alice)) initial_state) = []"
proof -
  have empty: "players fresh_session_state = [] \<and> conn fresh_session_state = Some live_connection"
    by (simp add: fresh_session_state_def session_state_def)
  have rows: "distinct (map (\<lambda>p. toHexString (identity p)) (db_player live_connection))"
    by (simp add: live_connection_def alice_def bob_def)
  have entries: "map player_entry (db_player live_connection) = [(''a1'', alice), (''b2'', bob)]"
    by (simp add: live_connection_def player_entry_def alice_def bob_def)
  have first: "players (onSubscriptionApplied (Some (identity alice)) fresh_session_state)
      = [(''a1'', alice), (''b2'', bob)]"
    using onSubscriptionApplied_fill_policy
      [where s = fresh_session_state and c = live_connection
        and identity_c = "Some (identity alice)"] empty rows entries
    by simp
  have second: "players (onSubscriptionApplied (Some (identity alice))
      (fresh_session_state\<lparr>players := [(''c3'', carol)]\<rparr>)) = [(''c3'', carol)]"
    using onSubscriptionApplied_fill_policy
      [where s = "fresh_session_state\<lparr>players := [(''c3'', carol)]\<rparr>"
        and identity_c = "Some (identity alice)"]
    by simp
  have third: "players (onSubscriptionApplied (Some (identity alice)) initial_state) = []"
    using onSubscriptionApplied_fill_policy
      [where s = initial_state and identity_c = "Some (identity alice)"]
    by (simp add: initial_state_def)
  from first second third show ?thesis by simp
qed

section \<open>Actions without a connection and mouse motion: results\<close>

lemma handleClick_connected:
  "window_conn s = Some c \<Longrightarrow> reducer_throws c (ToggleGridSquare key) = None \<Longrightarrow>
   reducer_calls (handleClick key s) = reducer_calls s @ [ToggleGridSquare key]"
  by (simp add: handleClick_def callReducer_def console_log_def)

lemma handleJoinGame_connected:
  "conn s = Some c \<Longrightarrow> reducer_throws c (RegisterPlayer u cc) = None \<Longrightarrow>
   \<exists>s'. handleJoinGame u cc s = Inr s' \<and> reducer_calls s' = reducer_calls s @ [RegisterPlayer u cc]
      \<and> \<not> showJoinDialog s'"
  by (simp add: handleJoinGame_def callReducer_def console_log_def)

text \<open>
  C7. With \<open>window.conn\<close> null, \<open>handleClick\<close> only writes an error to the console: no
  reducer is invoked and the player mirror and the selected squares are unchanged. With
  \<open>conn\<close> null, \<open>handleJoinGame\<close> returns normally after writing an error to the
  console, and likewise invokes no reducer and leaves the mirror unchanged.
\<close>

theorem actions_rejected_without_connection:
  "(window_conn s = None \<longrightarrow>
      handleClick key s
        = console_error [''Cannot toggle grid square - not connected to server''] s \<and>
      reducer_calls (handleClick key s) = reducer_calls s \<and>
      players (handleClick key s) = players s \<and>
      selectedSquares (handleClick key s) = selectedSquares s) \<and>
   (conn s = None \<longrightarrow>
      handleJoinGame username' characterClass' s
        = Inr (console_error [''Cannot join game, not connected.''] s) \<and>
      reducer_calls (console_error [''Cannot join game, not connected.''] s) = reducer_calls s \<and>
      players (console_error [''Cannot join game, not connected.''] s) = players s)"
  by (simp add: handleClick_def handleJoinGame_def console_error_def)

theorem actions_rejected_without_connection_witness:
  "reducer_calls (handleClick ''square-0-0'' initial_state) = [] \<and>
   console (handleClick ''square-0-0'' initial_state)
     = [ConsoleError [''Cannot toggle grid square - not connected to server'']] \<and>
   handleJoinGame ''alice'' ''Wizard'' initial_state
     = Inr (initial_state\<lparr>console := [ConsoleError [''Cannot join game, not connected.'']]\<rparr>)"
proof -
  have off: "window_conn initial_state = None" "conn initial_state = None"
    "reducer_calls initial_state = []" "console initial_state = []"
    by (simp_all add: initial_state_def)
  from actions_rejected_without_connection
    [where s = initial_state and key = "''square-0-0''" and username' = "''alice''"
      and characterClass' = "''Wizard''"] off
  show ?thesis by (simp add: console_error_def)
qed

lemma handleMouseMove_locked:
  assumes "pointerLockElement s = Some DocumentBody"
  shows "euler_x (playerRotationRef (handleMouseMove e s))
           = max (- pi / 2.5) (min (pi / 2.5) (euler_x (playerRotationRef s) - movementY e * 0.002))"
    and "euler_y (playerRotationRef (handleMouseMove e s))
           = euler_y (playerRotationRef s) - movementX e * 0.002"
    and "euler_z (playerRotationRef (handleMouseMove e s)) = euler_z (playerRotationRef s)"
  using assms by (simp_all add: handleMouseMove_def Let_def)

lemma handleMouseMove_unlocked:
  "pointerLockElement s \<noteq> Some DocumentBody \<Longrightarrow> handleMouseMove e s = s"
  by (simp add: handleMouseMove_def)

lemma clamp_between:
  fixes b v :: real
  assumes "0 \<le> b"
  shows "- b \<le> max (- b) (min b v)" and "max (- b) (min b v) \<le> b"
  using assms by (simp_all add: max_def min_def)

lemma handleMouseMove_clamped:
  assumes "pointerLockElement s = Some DocumentBody"
  shows "- pi / 2.5 \<le> euler_x (playerRotationRef (handleMouseMove e s))"
    and "euler_x (playerRotationRef (handleMouseMove e s)) \<le> pi / 2.5"
proof -
  have nonneg: "0 \<le> pi / 2.5" by simp
  have eq: "euler_x (playerRotationRef (handleMouseMove e s))
      = max (- (pi / 2.5)) (min (pi / 2.5) (euler_x (playerRotationRef s) - movementY e * 0.002))"
    using assms by (simp add: handleMouseMove_locked)
  from clamp_between [OF nonneg] eq
  show "- pi / 2.5 \<le> euler_x (playerRotationRef (handleMouseMove e s))"
    and "euler_x (playerRotationRef (handleMouseMove e s)) \<le> pi / 2.5"
    by simp_all
qed

lemma horizontal_unbounded:
  assumes "pointerLockElement s = Some DocumentBody"
  shows "\<exists>e. bound < euler_y (playerRotationRef (handleMouseMove e s))"
proof -
  let ?e = "\<lparr>button = 0, movementX = (euler_y (playerRotationRef s) - bound - 1) / 0.002,
             movementY = 0\<rparr>"
  have "euler_y (playerRotationRef (handleMouseMove ?e s)) = bound + 1"
    using assms by (simp add: handleMouseMove_locked field_simps)
  then have "bound < euler_y (playerRotationRef (handleMouseMove ?e s))" by simp
  then show ?thesis ..
qed

text \<open>
  C9. A mouse movement changes the rotation only while the pointer is locked on the
  body. When it is, the vertical component \<open>x\<close> ends within \<open>[-\<pi>/2.5, \<pi>/2.5]\<close>
  whatever it was before, and the horizontal component \<open>y\<close> is the old one minus
  \<open>movementX * 0.002\<close>, which exceeds any given bound for a suitable movement. Hence a
  vertical component within the interval stays within it under every mouse movement.
\<close>

theorem handleMouseMove_rotation:
  "(pointerLockElement s \<noteq> Some DocumentBody \<longrightarrow>
      playerRotationRef (handleMouseMove e s) = playerRotationRef s) \<and>
   (pointerLockElement s = Some DocumentBody \<longrightarrow>
      - pi / 2.5 \<le> euler_x (playerRotationRef (handleMouseMove e s)) \<and>
      euler_x (playerRotationRef (handleMouseMove e s)) \<le> pi / 2.5 \<and>
      euler_y (playerRotationRef (handleMouseMove e s))
        = euler_y (playerRotationRef s) - movementX e * 0.002 \<and>
      (\<exists>e'. bound < euler_y (playerRotationRef (handleMouseMove e' s)))) \<and>
   (- pi / 2.5 \<le> euler_x (playerRotationRef s) \<and> euler_x (playerRotationRef s) \<le> pi / 2.5 \<longrightarrow>
      - pi / 2.5 \<le> euler_x (playerRotationRef (handleMouseMove e s)) \<and>
      euler_x (playerRotationRef (handleMouseMove e s)) \<le> pi / 2.5)"
proof (cases "pointerLockElement s = Some DocumentBody")
  case True
  note handleMouseMove_clamped [OF True, of e]
    handleMouseMove_locked(2) [OF True, of e]
    horizontal_unbounded [OF True, of bound]
  with True show ?thesis by blast
next
  case False
  then have "handleMouseMove e s = s"
    by (rule handleMouseMove_unlocked)
  with False show ?thesis by simp
qed

theorem handleMouseMove_rotation_witness:
  "euler_x (playerRotationRef (handleMouseMove mouse_sweep locked_state)) \<le> pi / 2.5 \<and>
   - pi / 2.5 \<le> euler_x (playerRotationRef (handleMouseMove mouse_sweep locked_state)) \<and>
   euler_y (playerRotationRef (handleMouseMove mouse_sweep locked_state)) = - 0.2 \<and>
   playerRotationRef (handleMouseMove mouse_sweep session_state) = playerRotationRef session_state"
proof -
  have locked: "pointerLockElement locked_state = Some DocumentBody"
    by (simp add: locked_state_def)
  have unlocked: "pointerLockElement session_state \<noteq> Some DocumentBody"
    by (simp add: session_state_def initial_state_def)
  have start: "euler_y (playerRotationRef locked_state) = 0" "movementX mouse_sweep = 100"
    by (simp_all add: locked_state_def session_state_def initial_state_def mouse_sweep_def)
  from handleMouseMove_rotation [where s = locked_state and e = mouse_sweep and bound = 0]
    locked start
  have a: "euler_x (playerRotationRef (handleMouseMove mouse_sweep locked_state)) \<le> pi / 2.5"
    "- pi / 2.5 \<le> euler_x (playerRotationRef (handleMouseMove mouse_sweep locked_state))"
    "euler_y (playerRotationRef (handleMouseMove mouse_sweep locked_state)) = - 0.2"
    by simp_all
  from handleMouseMove_rotation [where s = session_state and e = mouse_sweep and bound = 0]
    unlocked
  have b: "playerRotationRef (handleMouseMove mouse_sweep session_state)
      = playerRotationRef session_state"
    by simp
  from a b show ?thesis by simp
qed

lemma sweep_hits_upper_bound:
  "euler_x (playerRotationRef (handleMouseMove mouse_sweep locked_state)) = pi / 2.5"
proof -
  have "pi / 2.5 \<le> 10"
    using pi_less_4 by simp
  then show ?thesis
    by (simp add: handleMouseMove_def locked_state_def session_state_def initial_state_def
        mouse_sweep_def Let_def min_def max_def)
qed

end
